theory Spec2Isabelle
  imports Main
begin

section \<open>Python values, exceptions and the environment\<close>

text \<open>
  The bindings of \<^verbatim>\<open>gitmeta/repo.py\<close> shell out to an external tool. The model keeps
  the Python values that reach the code (strings, lists, tuples, the function object
  \<^verbatim>\<open>Repo._get_git_meta_bin\<close>, \<^verbatim>\<open>None\<close>), the exceptions of
  \<^verbatim>\<open>gitmeta/exceptions.py\<close> as values, and the operating system as a parameter:
  \<^verbatim>\<open>os.path.exists\<close> and \<^verbatim>\<open>subprocess.Popen(...).communicate()\<close> are fields of an
  environment record over an abstract operating-system state, so that an external command
  may answer differently at every call and may change the file system. The record also
  holds the interpreter's constant \<^verbatim>\<open>__debug__\<close>, which is \<^verbatim>\<open>False\<close> when Python runs
  with \<^verbatim>\<open>-O\<close>: an \<^verbatim>\<open>assert\<close> statement is executed only where it is \<^verbatim>\<open>True\<close>.
\<close>

type_synonym path = string

datatype pyval =
    PyStr string
  | PyList "pyval list"
  | PyTuple "pyval list"
  | PyFunction string
  | PyNone

text \<open>
  The exceptions a call of the bindings can end with: the three raised by the package
  (\<^verbatim>\<open>GitMetaCommandException(returncode, args, stdout, stderr)\<close>,
  \<^verbatim>\<open>MissingGitMetaCloneException(clone_dir)\<close>, \<^verbatim>\<open>NoSuchPathException(message)\<close>), the
  failed \<^verbatim>\<open>assert\<close>, the \<^verbatim>\<open>TypeError\<close> of \<^verbatim>\<open>list.extend\<close> given a value that cannot
  be iterated, and an exception of some class raised by \<^verbatim>\<open>subprocess\<close> itself, which
  the bindings neither raise nor wrap.
\<close>

datatype pyclass =
    Cls_object
  | Cls_BaseException
  | Cls_Exception
  | Cls_OSError
  | Cls_TypeError
  | Cls_AssertionError
  | Cls_GitMetaException
  | Cls_MissingGitMetaCloneException
  | Cls_NoSuchPathException
  | Cls_GitMetaCommandException

datatype exn =
    GitMetaCommandException int "pyval list" string string
  | MissingGitMetaCloneException path
  | NoSuchPathException string
  | AssertionError
  | TypeError
  | SubprocessRaised pyclass

text \<open>
  What \<^verbatim>\<open>Popen\<close> followed by \<^verbatim>\<open>communicate\<close> gives: the return code with the
  captured standard output and standard error, or an exception of \<^verbatim>\<open>subprocess\<close>
  itself (the binary was not found, the command vector was refused), given by its class.
\<close>

datatype popen_outcome =
    Exited int string string
  | PopenRaised pyclass

record 's os_env =
  os_path_exists :: "'s \<Rightarrow> path \<Rightarrow> bool"
  subprocess_Popen :: "'s \<Rightarrow> pyval list \<Rightarrow> path option \<Rightarrow> popen_outcome \<times> 's"
  python_debug :: bool

text \<open>
  The state threaded through every operation: the operating-system state and the list of
  calls made to \<^verbatim>\<open>subprocess.Popen\<close> so far (command vector and \<^verbatim>\<open>cwd\<close>), oldest
  first.
\<close>

record 's machine =
  os_state :: 's
  popen_calls :: "(pyval list \<times> path option) list"

section \<open>The exception classes of \<^verbatim>\<open>gitmeta/exceptions.py\<close>\<close>

text \<open>
  The direct bases of each class, in the order of the \<^verbatim>\<open>class\<close> statement. The four
  classes of the package are as declared there; the built-in ones are those of Python 3.
\<close>

fun bases :: "pyclass \<Rightarrow> pyclass list" where
  "bases Cls_GitMetaException = [Cls_Exception]"
| "bases Cls_MissingGitMetaCloneException = [Cls_GitMetaException]"
| "bases Cls_NoSuchPathException = [Cls_GitMetaException, Cls_OSError]"
| "bases Cls_GitMetaCommandException = [Cls_GitMetaException]"
| "bases Cls_OSError = [Cls_Exception]"
| "bases Cls_TypeError = [Cls_Exception]"
| "bases Cls_AssertionError = [Cls_Exception]"
| "bases Cls_Exception = [Cls_BaseException]"
| "bases Cls_BaseException = [Cls_object]"
| "bases Cls_object = []"

text \<open>The distance of a class from \<^verbatim>\<open>object\<close>: every base of a class is nearer.\<close>

fun depth :: "pyclass \<Rightarrow> nat" where
  "depth Cls_object = 0"
| "depth Cls_BaseException = 1"
| "depth Cls_Exception = 2"
| "depth Cls_OSError = 3"
| "depth Cls_TypeError = 3"
| "depth Cls_AssertionError = 3"
| "depth Cls_GitMetaException = 3"
| "depth Cls_MissingGitMetaCloneException = 4"
| "depth Cls_NoSuchPathException = 4"
| "depth Cls_GitMetaCommandException = 4"

text \<open>\<^verbatim>\<open>issubclass(c, d)\<close>: \<^verbatim>\<open>c\<close> is \<^verbatim>\<open>d\<close> or one of its bases is a subclass of \<^verbatim>\<open>d\<close>.\<close>

function issubclass :: "pyclass \<Rightarrow> pyclass \<Rightarrow> bool" where
  "issubclass c d = (c = d \<or> list_ex (\<lambda>b. issubclass b d) (bases c))"
  by pat_completeness auto
termination
proof (relation "measure (\<lambda>(c, d). depth c)")
  show "wf (measure (\<lambda>(c, d). depth c))"
    by simp
next
  fix c d :: pyclass and x
  assume "x \<in> set (bases c)"
  then show "((x, d), (c, d)) \<in> measure (\<lambda>(c, d). depth c)"
    by (cases c) auto
qed

declare issubclass.simps [simp del]

fun exn_class :: "exn \<Rightarrow> pyclass" where
  "exn_class (GitMetaCommandException rc a so se) = Cls_GitMetaCommandException"
| "exn_class (MissingGitMetaCloneException d) = Cls_MissingGitMetaCloneException"
| "exn_class (NoSuchPathException msg) = Cls_NoSuchPathException"
| "exn_class AssertionError = Cls_AssertionError"
| "exn_class TypeError = Cls_TypeError"
| "exn_class (SubprocessRaised c) = c"

text \<open>Whether a clause \<^verbatim>\<open>except h\<close> catches the exception \<^verbatim>\<open>e\<close>.\<close>

definition except_catches :: "pyclass \<Rightarrow> exn \<Rightarrow> bool" where
  "except_catches h e = issubclass (exn_class e) h"

section \<open>Library functions the bindings call\<close>

text \<open>
  \<^verbatim>\<open>str.isspace\<close> of Python 3 on the code points below 256: the ASCII white space
  (9 to 13 and 32), the separators 28 to 31, NEL (133) and the no-break space (160).
\<close>

definition isspace :: "char \<Rightarrow> bool" where
  "isspace c =
     (let n = (of_char c :: nat)
      in (9 \<le> n \<and> n \<le> 13) \<or> (28 \<le> n \<and> n \<le> 32) \<or> n = 133 \<or> n = 160)"

text \<open>\<^verbatim>\<open>str.strip()\<close> without argument.\<close>

definition strip :: "string \<Rightarrow> string" where
  "strip s = rev (dropWhile isspace (rev (dropWhile isspace s)))"

text \<open>
  \<^verbatim>\<open>posixpath.join(a, *p)\<close>: a component that starts with the separator replaces what was
  joined so far; otherwise it is appended, after a separator unless the path so far is
  empty or already ends with one.
\<close>

definition join_step :: "path \<Rightarrow> path \<Rightarrow> path" where
  "join_step p b =
     (if b \<noteq> [] \<and> hd b = CHR ''/'' then b
      else if p = [] \<or> last p = CHR ''/'' then p @ b
      else p @ ''/'' @ b)"

definition os_path_join :: "path \<Rightarrow> path list \<Rightarrow> path" where
  "os_path_join a ps = foldl join_step a ps"



section \<open>The class \<^verbatim>\<open>Repo\<close>\<close>

record Repo =
  working_dir :: path
  git_dir :: path

text \<open>\<^verbatim>\<open>Repo._get_git_meta_bin()\<close>: the name looked up on \<^verbatim>\<open>PATH\<close>.\<close>

definition Repo_get_git_meta_bin :: string where
  "Repo_get_git_meta_bin = ''git-meta''"

text \<open>
  \<^verbatim>\<open>Repo._execute_git_meta_cmd(args, cwd)\<close>. The source writes
  \<^verbatim>\<open>cmd = [Repo._get_git_meta_bin]\<close>, without calling the function: the first element of
  the command vector is the function object.
\<close>

abbreviation get_git_meta_bin_function :: pyval where
  "get_git_meta_bin_function \<equiv> PyFunction ''Repo._get_git_meta_bin''"

definition Repo_execute_git_meta_cmd ::
  "'s os_env \<Rightarrow> pyval list \<Rightarrow> path option \<Rightarrow> 's machine \<Rightarrow> (exn + string) \<times> 's machine" where
  "Repo_execute_git_meta_cmd env args cwd m =
     (let cmd = [get_git_meta_bin_function] @ args;
          (pipes, s') = subprocess_Popen env (os_state m) cmd cwd;
          m' = \<lparr>os_state = s', popen_calls = popen_calls m @ [(cmd, cwd)]\<rparr>
      in case pipes of
           PopenRaised c \<Rightarrow> (Inl (SubprocessRaised c), m')
         | Exited returncode stdout stderr \<Rightarrow>
             if 0 = returncode then (Inr (strip stdout), m')
             else (Inl (GitMetaCommandException returncode args stdout stderr), m'))"

definition Repo_root ::
  "'s os_env \<Rightarrow> path option \<Rightarrow> 's machine \<Rightarrow> (exn + string) \<times> 's machine" where
  "Repo_root env cwd m = Repo_execute_git_meta_cmd env [PyStr ''root''] cwd m"

definition Repo_help ::
  "'s os_env \<Rightarrow> path option \<Rightarrow> 's machine \<Rightarrow> (exn + string) \<times> 's machine" where
  "Repo_help env cwd m = Repo_execute_git_meta_cmd env [PyStr ''help''] cwd m"

definition Repo_version ::
  "'s os_env \<Rightarrow> path option \<Rightarrow> 's machine \<Rightarrow> (exn + string) \<times> 's machine" where
  "Repo_version env cwd m = Repo_execute_git_meta_cmd env [PyStr ''version''] cwd m"

text \<open>
  \<^verbatim>\<open>Repo.get_working_dir(clone_dir)\<close>: the existence check comes first; of the exceptions
  of \<^verbatim>\<open>_root\<close> the clause \<^verbatim>\<open>except exceptions.GitMetaCommandException\<close> catches
  those of that class and turns them into \<^verbatim>\<open>None\<close>; any other goes on to the caller.
\<close>

definition Repo_get_working_dir ::
  "'s os_env \<Rightarrow> path \<Rightarrow> 's machine \<Rightarrow> (exn + string option) \<times> 's machine" where
  "Repo_get_working_dir env clone_dir m =
     (if \<not> os_path_exists env (os_state m) clone_dir
      then (Inl (NoSuchPathException (''Could not read '' @ clone_dir)), m)
      else case Repo_root env (Some clone_dir) m of
             (Inr out, m') \<Rightarrow> (Inr (Some out), m')
           | (Inl e, m') \<Rightarrow>
               if except_catches Cls_GitMetaCommandException e then (Inr None, m')
               else (Inl e, m'))"

text \<open>
  \<^verbatim>\<open>Repo.__init__(self, clone_dir)\<close>. \<^verbatim>\<open>not working_dir\<close> holds for \<^verbatim>\<open>None\<close> and for
  the empty string.
\<close>

definition Repo_init ::
  "'s os_env \<Rightarrow> path \<Rightarrow> 's machine \<Rightarrow> (exn + Repo) \<times> 's machine" where
  "Repo_init env clone_dir m =
     (case Repo_get_working_dir env clone_dir m of
        (Inl e, m') \<Rightarrow> (Inl e, m')
      | (Inr None, m') \<Rightarrow> (Inl (MissingGitMetaCloneException clone_dir), m')
      | (Inr (Some wd), m') \<Rightarrow>
          if wd = [] then (Inl (MissingGitMetaCloneException clone_dir), m')
          else (Inr \<lparr>working_dir = wd, git_dir = os_path_join wd [''.git'']\<rparr>, m'))"

text \<open>\<^verbatim>\<open>isinstance(v, list)\<close>.\<close>

fun isinstance_list :: "pyval \<Rightarrow> bool" where
  "isinstance_list (PyList xs) = True"
| "isinstance_list _ = False"

text \<open>
  What \<^verbatim>\<open>list.extend(v)\<close> appends: the elements of a list or a tuple, the characters of
  a string one by one, each a string of length one; a function or \<^verbatim>\<open>None\<close> cannot be
  iterated.
\<close>

fun iterate :: "pyval \<Rightarrow> exn + pyval list" where
  "iterate (PyList xs) = Inr xs"
| "iterate (PyTuple xs) = Inr xs"
| "iterate (PyStr s) = Inr (map (\<lambda>c. PyStr [c]) s)"
| "iterate (PyFunction f) = Inl TypeError"
| "iterate PyNone = Inl TypeError"

text \<open>
  \<^verbatim>\<open>Repo.open(self, submodules)\<close> and \<^verbatim>\<open>Repo.checkout(self, params)\<close>. The
  \<^verbatim>\<open>assert\<close> is executed where \<^verbatim>\<open>__debug__\<close> holds; without it whatever was passed
  goes to \<^verbatim>\<open>cmd.extend\<close>. The output of the command is dropped, the methods return
  \<^verbatim>\<open>None\<close>.
\<close>

definition Repo_open ::
  "'s os_env \<Rightarrow> Repo \<Rightarrow> pyval \<Rightarrow> 's machine \<Rightarrow> (exn + unit) \<times> 's machine" where
  "Repo_open env self submodules m =
     (if python_debug env \<and> \<not> isinstance_list submodules then (Inl AssertionError, m)
      else case iterate submodules of
             Inl e \<Rightarrow> (Inl e, m)
           | Inr elems \<Rightarrow>
               let cmd = [PyStr ''open''] @ elems
               in case Repo_execute_git_meta_cmd env cmd (Some (working_dir self)) m of
                    (Inl e, m') \<Rightarrow> (Inl e, m')
                  | (Inr out, m') \<Rightarrow> (Inr (), m'))"

definition Repo_checkout ::
  "'s os_env \<Rightarrow> Repo \<Rightarrow> pyval \<Rightarrow> 's machine \<Rightarrow> (exn + unit) \<times> 's machine" where
  "Repo_checkout env self params m =
     (if python_debug env \<and> \<not> isinstance_list params then (Inl AssertionError, m)
      else case iterate params of
             Inl e \<Rightarrow> (Inl e, m)
           | Inr elems \<Rightarrow>
               let cmd = [PyStr ''checkout''] @ elems
               in case Repo_execute_git_meta_cmd env cmd (Some (working_dir self)) m of
                    (Inl e, m') \<Rightarrow> (Inl e, m')
                  | (Inr out, m') \<Rightarrow> (Inr (), m'))"


section \<open>The marker path in the words of the specification\<close>


section \<open>A stub environment\<close>

text \<open>
  A file system that does not change and a runner that answers by command vector and
  working directory; the operating-system state counts the processes run; assertions are
  executed.
\<close>

definition stub_env ::
  "(path \<Rightarrow> bool) \<Rightarrow> (pyval list \<Rightarrow> path option \<Rightarrow> popen_outcome) \<Rightarrow> nat os_env" where
  "stub_env ex run =
     \<lparr>os_path_exists = (\<lambda>s p. ex p),
      subprocess_Popen = (\<lambda>s cmd cwd. (run cmd cwd, Suc s)),
      python_debug = True\<rparr>"

text \<open>The same environment with Python run under \<^verbatim>\<open>-O\<close>.\<close>

definition optimised :: "'s os_env \<Rightarrow> 's os_env" where
  "optimised env = env\<lparr>python_debug := False\<rparr>"

definition start :: "nat machine" where
  "start = \<lparr>os_state = 0, popen_calls = []\<rparr>"

text \<open>
  A runner for the scenarios of the specification: \<^verbatim>\<open>root\<close> prints a path with white
  space around it, every other command prints a usage line.
\<close>

definition scenario_runner :: "pyval list \<Rightarrow> path option \<Rightarrow> popen_outcome" where
  "scenario_runner cmd cwd =
     (if cmd = [get_git_meta_bin_function, PyStr ''root'']
      then Exited 0 ''  /some/path\<newline>'' []
      else Exited 0 ''usage: ...\<newline>'' [])"

text \<open>
  The file system of the scenarios (the candidate directory and the marker of one open
  submodule) and the \<^verbatim>\<open>Repo\<close> that the scenario runner resolves to.
\<close>

definition scenario_fs :: "path \<Rightarrow> bool" where
  "scenario_fs p = (p = ''/tmp/x'' \<or> p = ''/some/path/sub/.git'')"


definition scenario_repo :: Repo where
  "scenario_repo = \<lparr>working_dir = ''/some/path'', git_dir = ''/some/path/.git''\<rparr>"

section \<open>The command vector handed to the child process\<close>

lemma execute_popen_calls:
  "popen_calls (snd (Repo_execute_git_meta_cmd env args cwd m)) =
     popen_calls m @ [(get_git_meta_bin_function # args, cwd)]"
  by (simp add: Repo_execute_git_meta_cmd_def Let_def
           split: prod.splits popen_outcome.splits)

lemma execute_outcome:
  assumes "fst (subprocess_Popen env (os_state m) (get_git_meta_bin_function # args) cwd)
             = Exited rc out err"
  shows "fst (Repo_execute_git_meta_cmd env args cwd m) =
           (if rc = 0 then Inr (strip out) else Inl (GitMetaCommandException rc args out err))"
  using assms
  by (auto simp: Repo_execute_git_meta_cmd_def Let_def split: prod.splits)

lemma execute_unfolded:
  "Repo_execute_git_meta_cmd env args cwd m =
     (case subprocess_Popen env (os_state m) (get_git_meta_bin_function # args) cwd of
        (pipes, s') \<Rightarrow>
          (case pipes of
             Exited rc out err \<Rightarrow>
               if rc = 0 then Inr (strip out)
               else Inl (GitMetaCommandException rc args out err)
           | PopenRaised c \<Rightarrow> Inl (SubprocessRaised c),
           \<lparr>os_state = s',
              popen_calls = popen_calls m @ [(get_git_meta_bin_function # args, cwd)]\<rparr>))"
  by (auto simp: Repo_execute_git_meta_cmd_def Let_def split: prod.splits popen_outcome.splits)

section \<open>Catching by class\<close>

lemma issubclass_refl: "issubclass c c"
  by (subst issubclass.simps) simp

lemma issubclass_command_exception:
  "issubclass c Cls_GitMetaCommandException \<longleftrightarrow> c = Cls_GitMetaCommandException"
  by (cases c; hypsubst_thin; code_simp)

lemma catches_command_exception:
  "except_catches Cls_GitMetaCommandException e \<longleftrightarrow>
     exn_class e = Cls_GitMetaCommandException"
  by (simp add: except_catches_def issubclass_command_exception)

section \<open>What \<^verbatim>\<open>strip\<close> removes\<close>

lemma rev_dropWhile_split:
  "t = rev (dropWhile P (rev t)) @ rev (takeWhile P (rev t))"
proof -
  have "rev (rev (dropWhile P (rev t)) @ rev (takeWhile P (rev t))) = rev t"
    by (simp only: rev_append rev_rev_ident takeWhile_dropWhile_id)
  then show ?thesis
    by (simp only: rev_is_rev_conv)
qed

lemma strip_split:
  "dropWhile isspace s = strip s @ rev (takeWhile isspace (rev (dropWhile isspace s)))"
  unfolding strip_def by (rule rev_dropWhile_split)

lemma strip_decomp:
  "\<exists>pre suf. s = pre @ strip s @ suf \<and> list_all isspace pre \<and> list_all isspace suf"
proof -
  let ?pre = "takeWhile isspace s"
  let ?suf = "rev (takeWhile isspace (rev (dropWhile isspace s)))"
  have "s = ?pre @ dropWhile isspace s"
    by simp
  then have "s = ?pre @ strip s @ ?suf"
    using strip_split[of s] by simp
  moreover have "list_all isspace ?pre"
    by (simp add: list_all_iff) (meson set_takeWhileD)
  moreover have "list_all isspace ?suf"
    by (simp add: list_all_iff) (meson set_takeWhileD)
  ultimately show ?thesis by blast
qed

lemma strip_last: "strip s \<noteq> [] \<Longrightarrow> \<not> isspace (last (strip s))"
  by (simp add: strip_def last_rev hd_dropWhile)

lemma strip_hd:
  assumes "strip s \<noteq> []"
  shows "\<not> isspace (hd (strip s))"
proof -
  have "hd (dropWhile isspace s) = hd (strip s)" and "dropWhile isspace s \<noteq> []"
    using assms strip_split[of s] by (metis hd_append2, metis append_is_Nil_conv)
  then show ?thesis
    using hd_dropWhile[of isspace s] by simp
qed

section \<open>Joined paths and constructed clones\<close>







lemma init_working_dir_nonempty:
  assumes "fst (Repo_init env clone_dir m) = Inr r"
  shows "working_dir r \<noteq> []"
  using assms
  by (auto simp: Repo_init_def split: prod.splits sum.splits option.splits if_splits)

lemma strip_scenario: "strip ''  /some/path\<newline>'' = ''/some/path''"
  by (simp add: strip_def isspace_def)

lemma init_scenario:
  "Repo_init (stub_env scenario_fs scenario_runner) ''/tmp/x'' \<lparr>os_state = n, popen_calls = cs\<rparr>
     = (Inr scenario_repo,
        \<lparr>os_state = Suc n,
           popen_calls = cs @ [([get_git_meta_bin_function, PyStr ''root''], Some ''/tmp/x'')]\<rparr>)"
  by (simp add: Repo_init_def Repo_get_working_dir_def Repo_root_def
        Repo_execute_git_meta_cmd_def stub_env_def scenario_fs_def scenario_runner_def
        scenario_repo_def strip_scenario os_path_join_def join_step_def)

lemma init_result:
  assumes "fst (subprocess_Popen env (os_state m) [get_git_meta_bin_function, PyStr ''root'']
                 (Some clone_dir)) = Exited 0 out err"
    and "os_path_exists env (os_state m) clone_dir"
  shows "fst (Repo_init env clone_dir m) =
           (if strip out = [] then Inl (MissingGitMetaCloneException clone_dir)
            else Inr \<lparr>working_dir = strip out, git_dir = os_path_join (strip out) [''.git'']\<rparr>)"
proof -
  have "fst (Repo_root env (Some clone_dir) m) = Inr (strip out)"
    using execute_outcome [OF assms(1)] by (simp add: Repo_root_def)
  then obtain m' where "Repo_root env (Some clone_dir) m = (Inr (strip out), m')"
    by (cases "Repo_root env (Some clone_dir) m") simp
  with assms(2) show ?thesis
    by (simp add: Repo_get_working_dir_def Repo_init_def)
qed

lemma init_needs_path:
  assumes "fst (Repo_init env clone_dir m) = Inr r"
  shows "os_path_exists env (os_state m) clone_dir"
  using assms by (auto simp: Repo_init_def Repo_get_working_dir_def split: if_splits)

section \<open>Claims\<close>

text \<open>
  C1. The claim: every call of \<^verbatim>\<open>_execute_git_meta_cmd\<close> spawns the child with the
  resolved name \<^verbatim>\<open>'git-meta'\<close> as the first element of the command vector, followed by
  the caller's arguments in order. The code does not: at \<^verbatim>\<open>args = ['root']\<close> the vector
  handed to \<^verbatim>\<open>Popen\<close> starts with the function object
  \<^verbatim>\<open>Repo._get_git_meta_bin\<close>, not with the string that the function returns; the
  arguments do follow in order.
\<close>

theorem execute_passes_function_object:
  "popen_calls (snd (Repo_execute_git_meta_cmd
       (stub_env (\<lambda>p. True) (\<lambda>cmd cwd. Exited 0 [] [])) [PyStr ''root''] None start))
     = [([PyFunction ''Repo._get_git_meta_bin'', PyStr ''root''], None)]
   \<and> [PyFunction ''Repo._get_git_meta_bin'', PyStr ''root'']
       \<noteq> PyStr Repo_get_git_meta_bin # [PyStr ''root'']"
  by (simp add: Repo_execute_git_meta_cmd_def stub_env_def start_def)

text \<open>
  C2. For an existing candidate directory whose root probe raises
  \<^verbatim>\<open>GitMetaCommandException\<close>, \<^verbatim>\<open>get_working_dir\<close> returns \<^verbatim>\<open>None\<close> and the
  construction of a \<^verbatim>\<open>Repo\<close> from that directory raises
  \<^verbatim>\<open>MissingGitMetaCloneException\<close> carrying the candidate directory, not the failure of
  the external command.
\<close>

theorem probe_failure_becomes_missing_clone:
  assumes "os_path_exists env (os_state m) clone_dir"
    and "fst (Repo_root env (Some clone_dir) m) = Inl (GitMetaCommandException rc a so se)"
  shows "fst (Repo_get_working_dir env clone_dir m) = Inr None
       \<and> fst (Repo_init env clone_dir m) = Inl (MissingGitMetaCloneException clone_dir)"
proof -
  obtain m' where "Repo_root env (Some clone_dir) m = (Inl (GitMetaCommandException rc a so se), m')"
    using assms(2) by (cases "Repo_root env (Some clone_dir) m") simp
  with assms(1) have "Repo_get_working_dir env clone_dir m = (Inr None, m')"
    by (simp add: Repo_get_working_dir_def catches_command_exception)
  then show ?thesis
    by (simp add: Repo_init_def)
qed

theorem probe_failure_becomes_missing_clone_witness:
  "os_path_exists (stub_env (\<lambda>p. p = ''/tmp/x'') (\<lambda>cmd cwd. Exited 1 [] ''not a clone''))
        (os_state start) ''/tmp/x''
   \<and> fst (Repo_root (stub_env (\<lambda>p. p = ''/tmp/x'') (\<lambda>cmd cwd. Exited 1 [] ''not a clone''))
        (Some ''/tmp/x'') start)
       = Inl (GitMetaCommandException 1 [PyStr ''root''] [] ''not a clone'')
   \<and> fst (Repo_init (stub_env (\<lambda>p. p = ''/tmp/x'') (\<lambda>cmd cwd. Exited 1 [] ''not a clone''))
        ''/tmp/x'' start)
       = Inl (MissingGitMetaCloneException ''/tmp/x'')"
proof -
  let ?env = "stub_env (\<lambda>p. p = ''/tmp/x'') (\<lambda>cmd cwd. Exited 1 [] ''not a clone'')"
  have h1: "os_path_exists ?env (os_state start) ''/tmp/x''"
    by (simp add: stub_env_def)
  have h2: "fst (Repo_root ?env (Some ''/tmp/x'') start)
              = Inl (GitMetaCommandException 1 [PyStr ''root''] [] ''not a clone'')"
    by (simp add: Repo_root_def Repo_execute_git_meta_cmd_def stub_env_def)
  show ?thesis
    using h1 h2 probe_failure_becomes_missing_clone [OF h1 h2] by simp
qed

text \<open>
  C3. For a candidate directory that does not exist, \<^verbatim>\<open>get_working_dir\<close> and the
  construction of a \<^verbatim>\<open>Repo\<close> raise \<^verbatim>\<open>NoSuchPathException\<close>, the same exception from
  both, and leave the state as it was: no call of \<^verbatim>\<open>Popen\<close> has been added.
\<close>

theorem missing_path_raises_before_spawn:
  assumes "\<not> os_path_exists env (os_state m) clone_dir"
  shows "Repo_get_working_dir env clone_dir m
           = (Inl (NoSuchPathException (''Could not read '' @ clone_dir)), m)
       \<and> Repo_init env clone_dir m
           = (Inl (NoSuchPathException (''Could not read '' @ clone_dir)), m)"
  using assms by (simp add: Repo_get_working_dir_def Repo_init_def)

theorem missing_path_raises_before_spawn_witness:
  "\<not> os_path_exists (stub_env (\<lambda>p. p = ''/tmp/x'') (\<lambda>cmd cwd. Exited 0 ''/tmp/x'' []))
        (os_state start) ''/nowhere''
   \<and> Repo_init (stub_env (\<lambda>p. p = ''/tmp/x'') (\<lambda>cmd cwd. Exited 0 ''/tmp/x'' []))
        ''/nowhere'' start
       = (Inl (NoSuchPathException ''Could not read /nowhere''),
          \<lparr>os_state = 0, popen_calls = []\<rparr>)"
proof -
  let ?env = "stub_env (\<lambda>p. p = ''/tmp/x'') (\<lambda>cmd cwd. Exited 0 ''/tmp/x'' [])"
  have h: "\<not> os_path_exists ?env (os_state start) ''/nowhere''"
    by (simp add: stub_env_def)
  show ?thesis
    using h missing_path_raises_before_spawn [OF h] by (simp add: start_def)
qed

text \<open>
  C4. When the child exits with code 0, \<^verbatim>\<open>_execute_git_meta_cmd\<close> returns the captured
  standard output stripped: the output is a run of white space, the result, and a run of
  white space, and the result neither starts nor ends with white space, so nothing inside
  it is touched. \<^verbatim>\<open>help\<close> and \<^verbatim>\<open>version\<close> return the stripped output of their
  command, and the probe of \<^verbatim>\<open>get_working_dir\<close> resolves to the stripped output of
  \<^verbatim>\<open>root\<close>.
\<close>

theorem exit_zero_returns_stripped_stdout:
  "(fst (subprocess_Popen env (os_state m) (get_git_meta_bin_function # args) cwd)
      = Exited 0 out err
    \<longrightarrow> fst (Repo_execute_git_meta_cmd env args cwd m) = Inr (strip out))
   \<and> (\<exists>pre suf. out = pre @ strip out @ suf
          \<and> list_all isspace pre \<and> list_all isspace suf)
   \<and> (strip out = [] \<or> (\<not> isspace (hd (strip out)) \<and> \<not> isspace (last (strip out))))
   \<and> (fst (subprocess_Popen env (os_state m) [get_git_meta_bin_function, PyStr ''help''] cwd)
         = Exited 0 out err
       \<longrightarrow> fst (Repo_help env cwd m) = Inr (strip out))
   \<and> (fst (subprocess_Popen env (os_state m) [get_git_meta_bin_function, PyStr ''version''] cwd)
         = Exited 0 out err
       \<longrightarrow> fst (Repo_version env cwd m) = Inr (strip out))
   \<and> (os_path_exists env (os_state m) clone_dir
        \<and> fst (subprocess_Popen env (os_state m) [get_git_meta_bin_function, PyStr ''root'']
                 (Some clone_dir)) = Exited 0 out err
       \<longrightarrow> fst (Repo_get_working_dir env clone_dir m) = Inr (Some (strip out)))"
proof -
  have ex: "fst (Repo_execute_git_meta_cmd env a c m) = Inr (strip out)"
    if "fst (subprocess_Popen env (os_state m) (get_git_meta_bin_function # a) c)
          = Exited 0 out err" for a c
    using execute_outcome [OF that] by simp
  have gwd: "fst (Repo_get_working_dir env clone_dir m) = Inr (Some (strip out))"
    if "os_path_exists env (os_state m) clone_dir"
       "fst (subprocess_Popen env (os_state m) [get_git_meta_bin_function, PyStr ''root'']
              (Some clone_dir)) = Exited 0 out err"
  proof -
    have "fst (Repo_root env (Some clone_dir) m) = Inr (strip out)"
      using ex [OF that(2)] by (simp add: Repo_root_def)
    then obtain m' where "Repo_root env (Some clone_dir) m = (Inr (strip out), m')"
      by (cases "Repo_root env (Some clone_dir) m") simp
    with that(1) show ?thesis
      by (simp add: Repo_get_working_dir_def)
  qed
  show ?thesis
    using ex gwd strip_decomp [of out] strip_hd [of out] strip_last [of out]
    by (auto simp: Repo_help_def Repo_version_def)
qed

theorem exit_zero_returns_stripped_stdout_witness:
  "os_path_exists (stub_env (\<lambda>p. p = ''/tmp/x'') scenario_runner) (os_state start) ''/tmp/x''
   \<and> fst (subprocess_Popen (stub_env (\<lambda>p. p = ''/tmp/x'') scenario_runner) (os_state start)
          [get_git_meta_bin_function, PyStr ''root''] (Some ''/tmp/x''))
       = Exited 0 ''  /some/path\<newline>'' []
   \<and> fst (Repo_execute_git_meta_cmd (stub_env (\<lambda>p. p = ''/tmp/x'') scenario_runner)
          [PyStr ''root''] (Some ''/tmp/x'') start) = Inr ''/some/path''
   \<and> fst (Repo_get_working_dir (stub_env (\<lambda>p. p = ''/tmp/x'') scenario_runner) ''/tmp/x'' start)
       = Inr (Some ''/some/path'')
   \<and> fst (subprocess_Popen (stub_env (\<lambda>p. p = ''/tmp/x'') scenario_runner) (os_state start)
          [get_git_meta_bin_function, PyStr ''help''] None)
       = Exited 0 ''usage: ...\<newline>'' []
   \<and> fst (subprocess_Popen (stub_env (\<lambda>p. p = ''/tmp/x'') scenario_runner) (os_state start)
          [get_git_meta_bin_function, PyStr ''version''] None)
       = Exited 0 ''usage: ...\<newline>'' []
   \<and> fst (Repo_help (stub_env (\<lambda>p. p = ''/tmp/x'') scenario_runner) None start) = Inr ''usage: ...''
   \<and> fst (Repo_version (stub_env (\<lambda>p. p = ''/tmp/x'') scenario_runner) None start)
       = Inr ''usage: ...''"
proof -
  let ?env = "stub_env (\<lambda>p. p = ''/tmp/x'') scenario_runner"
  have e: "os_path_exists ?env (os_state start) ''/tmp/x''"
    by (simp add: stub_env_def)
  have r: "fst (subprocess_Popen ?env (os_state start)
                 [get_git_meta_bin_function, PyStr ''root''] (Some ''/tmp/x''))
             = Exited 0 ''  /some/path\<newline>'' []"
    by (simp add: stub_env_def scenario_runner_def)
  have h: "fst (subprocess_Popen ?env (os_state start)
                 [get_git_meta_bin_function, PyStr ''help''] None)
             = Exited 0 ''usage: ...\<newline>'' []"
    by (simp add: stub_env_def scenario_runner_def)
  have v: "fst (subprocess_Popen ?env (os_state start)
                 [get_git_meta_bin_function, PyStr ''version''] None)
             = Exited 0 ''usage: ...\<newline>'' []"
    by (simp add: stub_env_def scenario_runner_def)
  have s1: "strip ''  /some/path\<newline>'' = ''/some/path''"
    by (simp add: strip_def isspace_def)
  have s2: "strip ''usage: ...\<newline>'' = ''usage: ...''"
    by (simp add: strip_def isspace_def)
  show ?thesis
    using e r h v s1 s2
      exit_zero_returns_stripped_stdout
        [of ?env start "[PyStr ''root'']" "Some ''/tmp/x''" "''  /some/path\<newline>''" "[]"
            "''/tmp/x''"]
      exit_zero_returns_stripped_stdout
        [of ?env start "[PyStr ''help'']" None "''usage: ...\<newline>''" "[]" "''/tmp/x''"]
    by simp
qed

text \<open>
  C5. When the child exits with a code other than 0, \<^verbatim>\<open>_execute_git_meta_cmd\<close> raises
  \<^verbatim>\<open>GitMetaCommandException\<close> with that code, the arguments it was called with and the
  whole captured standard output and standard error; \<^verbatim>\<open>help\<close>, \<^verbatim>\<open>version\<close>,
  \<^verbatim>\<open>open\<close> and \<^verbatim>\<open>checkout\<close> end with that same exception.
\<close>

theorem nonzero_exit_raises_command_exception:
  assumes "rc \<noteq> 0"
  shows "(fst (subprocess_Popen env (os_state m) (get_git_meta_bin_function # args) cwd)
            = Exited rc out err
          \<longrightarrow> fst (Repo_execute_git_meta_cmd env args cwd m)
                = Inl (GitMetaCommandException rc args out err))
       \<and> (fst (subprocess_Popen env (os_state m)
                 [get_git_meta_bin_function, PyStr ''help''] cwd) = Exited rc out err
          \<longrightarrow> fst (Repo_help env cwd m)
                = Inl (GitMetaCommandException rc [PyStr ''help''] out err))
       \<and> (fst (subprocess_Popen env (os_state m)
                 [get_git_meta_bin_function, PyStr ''version''] cwd) = Exited rc out err
          \<longrightarrow> fst (Repo_version env cwd m)
                = Inl (GitMetaCommandException rc [PyStr ''version''] out err))
       \<and> (fst (subprocess_Popen env (os_state m)
                 (get_git_meta_bin_function # PyStr ''open'' # submodules)
                 (Some (working_dir self))) = Exited rc out err
          \<longrightarrow> fst (Repo_open env self (PyList submodules) m)
                = Inl (GitMetaCommandException rc (PyStr ''open'' # submodules) out err))
       \<and> (fst (subprocess_Popen env (os_state m)
                 (get_git_meta_bin_function # PyStr ''checkout'' # params)
                 (Some (working_dir self))) = Exited rc out err
          \<longrightarrow> fst (Repo_checkout env self (PyList params) m)
                = Inl (GitMetaCommandException rc (PyStr ''checkout'' # params) out err))"
proof -
  have ex: "fst (Repo_execute_git_meta_cmd env a c m) = Inl (GitMetaCommandException rc a out err)"
    if "fst (subprocess_Popen env (os_state m) (get_git_meta_bin_function # a) c)
          = Exited rc out err" for a c
    using execute_outcome [OF that] assms by simp
  have op: "fst (Repo_open env self (PyList submodules) m)
              = Inl (GitMetaCommandException rc (PyStr ''open'' # submodules) out err)"
    if "fst (subprocess_Popen env (os_state m)
              (get_git_meta_bin_function # PyStr ''open'' # submodules)
              (Some (working_dir self))) = Exited rc out err"
    using ex [OF that]
    by (cases "Repo_execute_git_meta_cmd env (PyStr ''open'' # submodules)
                 (Some (working_dir self)) m")
       (simp add: Repo_open_def)
  have co: "fst (Repo_checkout env self (PyList params) m)
              = Inl (GitMetaCommandException rc (PyStr ''checkout'' # params) out err)"
    if "fst (subprocess_Popen env (os_state m)
              (get_git_meta_bin_function # PyStr ''checkout'' # params)
              (Some (working_dir self))) = Exited rc out err"
    using ex [OF that]
    by (cases "Repo_execute_git_meta_cmd env (PyStr ''checkout'' # params)
                 (Some (working_dir self)) m")
       (simp add: Repo_checkout_def)
  show ?thesis
    using ex op co by (simp add: Repo_help_def Repo_version_def)
qed

theorem nonzero_exit_raises_command_exception_witness:
  "(2::int) \<noteq> 0
   \<and> fst (subprocess_Popen (stub_env (\<lambda>p. True) (\<lambda>cmd cwd. Exited 2 ''partial'' ''boom''))
          (os_state start) [get_git_meta_bin_function, PyStr ''help''] None)
       = Exited 2 ''partial'' ''boom''
   \<and> fst (Repo_execute_git_meta_cmd
          (stub_env (\<lambda>p. True) (\<lambda>cmd cwd. Exited 2 ''partial'' ''boom''))
          [PyStr ''help''] None start)
       = Inl (GitMetaCommandException 2 [PyStr ''help''] ''partial'' ''boom'')
   \<and> fst (Repo_help (stub_env (\<lambda>p. True) (\<lambda>cmd cwd. Exited 2 ''partial'' ''boom''))
          None start)
       = Inl (GitMetaCommandException 2 [PyStr ''help''] ''partial'' ''boom'')
   \<and> fst (Repo_version (stub_env (\<lambda>p. True) (\<lambda>cmd cwd. Exited 2 ''partial'' ''boom''))
          None start)
       = Inl (GitMetaCommandException 2 [PyStr ''version''] ''partial'' ''boom'')
   \<and> fst (Repo_open (stub_env (\<lambda>p. True) (\<lambda>cmd cwd. Exited 2 ''partial'' ''boom''))
          \<lparr>working_dir = ''/repo'', git_dir = ''/repo/.git''\<rparr> (PyList [PyStr ''a/b'']) start)
       = Inl (GitMetaCommandException 2 [PyStr ''open'', PyStr ''a/b''] ''partial'' ''boom'')
   \<and> fst (Repo_checkout (stub_env (\<lambda>p. True) (\<lambda>cmd cwd. Exited 2 ''partial'' ''boom''))
          \<lparr>working_dir = ''/repo'', git_dir = ''/repo/.git''\<rparr> (PyList [PyStr ''a/b'']) start)
       = Inl (GitMetaCommandException 2 [PyStr ''checkout'', PyStr ''a/b''] ''partial'' ''boom'')"
proof -
  let ?env = "stub_env (\<lambda>p. True) (\<lambda>cmd cwd. Exited 2 ''partial'' ''boom'')"
  have rc: "(2::int) \<noteq> 0"
    by simp
  have run: "fst (subprocess_Popen ?env (os_state start) cmd cwd) = Exited 2 ''partial'' ''boom''"
    for cmd cwd
    by (simp add: stub_env_def)
  show ?thesis
    using rc run
      nonzero_exit_raises_command_exception
        [OF rc, of ?env start "[PyStr ''help'']" None "''partial''" "''boom''"
            "[PyStr ''a/b'']" "\<lparr>working_dir = ''/repo'', git_dir = ''/repo/.git''\<rparr>"
            "[PyStr ''a/b'']"]
    by simp
qed

text \<open>
  C6. The claim: every argument that is no sequence, a plain string in particular, makes
  \<^verbatim>\<open>open\<close> and \<^verbatim>\<open>checkout\<close> fail a precondition check before any process is spawned,
  and \<^verbatim>\<open>open([])\<close> and \<^verbatim>\<open>checkout([])\<close> invoke the external tool with the bare
  subcommand in the working directory. The check is an \<^verbatim>\<open>assert\<close>: under
  \<^verbatim>\<open>python -O\<close> it is not executed, the string \<^verbatim>\<open>'not-a-list'\<close> is spread letter by
  letter into the command and the process is spawned.
\<close>

theorem open_checkout_optimised_counterexample:
  "\<not> isinstance_list (PyStr ''not-a-list'')
   \<and> Repo_open (optimised (stub_env scenario_fs scenario_runner)) scenario_repo
         (PyStr ''not-a-list'') start
       = (Inr (),
          \<lparr>os_state = 1,
             popen_calls =
               [([get_git_meta_bin_function, PyStr ''open'', PyStr ''n'', PyStr ''o'', PyStr ''t'',
                  PyStr ''-'', PyStr ''a'', PyStr ''-'', PyStr ''l'', PyStr ''i'', PyStr ''s'',
                  PyStr ''t''], Some ''/some/path'')]\<rparr>)
   \<and> Repo_checkout (optimised (stub_env scenario_fs scenario_runner)) scenario_repo
         (PyStr ''not-a-list'') start
       = (Inr (),
          \<lparr>os_state = 1,
             popen_calls =
               [([get_git_meta_bin_function, PyStr ''checkout'', PyStr ''n'', PyStr ''o'',
                  PyStr ''t'', PyStr ''-'', PyStr ''a'', PyStr ''-'', PyStr ''l'', PyStr ''i'',
                  PyStr ''s'', PyStr ''t''], Some ''/some/path'')]\<rparr>)"
  by (simp add: Repo_open_def Repo_checkout_def Repo_execute_git_meta_cmd_def optimised_def
        Let_def stub_env_def scenario_runner_def scenario_repo_def start_def)

text \<open>
  C6 as amended. Where assertions are executed, \<^verbatim>\<open>open\<close> and \<^verbatim>\<open>checkout\<close> given
  anything that is not a list (a plain string, \<^verbatim>\<open>None\<close>, also a tuple, hence every
  value that is no sequence) raise \<^verbatim>\<open>AssertionError\<close> and leave the state as it was, so
  no process has been spawned. Given the empty list, in either mode, they call
  \<^verbatim>\<open>Popen\<close> exactly once, with the bare subcommand after the first element of the
  command vector and the working directory of the clone as \<^verbatim>\<open>cwd\<close>; the state after
  the call is the one that \<^verbatim>\<open>Popen\<close> leaves, and the result is that of the process:
  \<^verbatim>\<open>None\<close> on exit code 0, \<^verbatim>\<open>GitMetaCommandException\<close> on any other, the exception
  of \<^verbatim>\<open>subprocess\<close> if it raised one.
\<close>

theorem open_checkout_asserted_precondition:
  "(python_debug env \<and> \<not> isinstance_list v
      \<longrightarrow> Repo_open env self v m = (Inl AssertionError, m)
        \<and> Repo_checkout env self v m = (Inl AssertionError, m))
   \<and> Repo_open env self (PyList []) m =
       (case subprocess_Popen env (os_state m) [get_git_meta_bin_function, PyStr ''open'']
               (Some (working_dir self)) of
          (pipes, s') \<Rightarrow>
            (case pipes of
               Exited rc out err \<Rightarrow>
                 if rc = 0 then Inr ()
                 else Inl (GitMetaCommandException rc [PyStr ''open''] out err)
             | PopenRaised c \<Rightarrow> Inl (SubprocessRaised c),
             \<lparr>os_state = s',
                popen_calls = popen_calls m
                  @ [([get_git_meta_bin_function, PyStr ''open''], Some (working_dir self))]\<rparr>))
   \<and> Repo_checkout env self (PyList []) m =
       (case subprocess_Popen env (os_state m) [get_git_meta_bin_function, PyStr ''checkout'']
               (Some (working_dir self)) of
          (pipes, s') \<Rightarrow>
            (case pipes of
               Exited rc out err \<Rightarrow>
                 if rc = 0 then Inr ()
                 else Inl (GitMetaCommandException rc [PyStr ''checkout''] out err)
             | PopenRaised c \<Rightarrow> Inl (SubprocessRaised c),
             \<lparr>os_state = s',
                popen_calls = popen_calls m
                  @ [([get_git_meta_bin_function, PyStr ''checkout''],
                      Some (working_dir self))]\<rparr>))"
  by (auto simp: Repo_open_def Repo_checkout_def execute_unfolded Let_def
           split: prod.splits popen_outcome.splits)

theorem open_checkout_asserted_precondition_witness:
  "python_debug (stub_env scenario_fs scenario_runner)
   \<and> \<not> isinstance_list (PyStr ''not-a-list'')
   \<and> Repo_open (stub_env scenario_fs scenario_runner) scenario_repo (PyStr ''not-a-list'') start
       = (Inl AssertionError, \<lparr>os_state = 0, popen_calls = []\<rparr>)
   \<and> Repo_checkout (stub_env scenario_fs scenario_runner) scenario_repo (PyStr ''not-a-list'')
         start
       = (Inl AssertionError, \<lparr>os_state = 0, popen_calls = []\<rparr>)
   \<and> Repo_open (stub_env scenario_fs scenario_runner) scenario_repo (PyList []) start
       = (Inr (),
          \<lparr>os_state = 1,
             popen_calls = [([get_git_meta_bin_function, PyStr ''open''], Some ''/some/path'')]\<rparr>)
   \<and> Repo_checkout (stub_env scenario_fs scenario_runner) scenario_repo (PyList []) start
       = (Inr (),
          \<lparr>os_state = 1,
             popen_calls =
               [([get_git_meta_bin_function, PyStr ''checkout''], Some ''/some/path'')]\<rparr>)"
proof -
  let ?env = "stub_env scenario_fs scenario_runner"
  have d: "python_debug ?env"
    by (simp add: stub_env_def)
  have h: "\<not> isinstance_list (PyStr ''not-a-list'')"
    by simp
  show ?thesis
    using d h
      open_checkout_asserted_precondition [of ?env "PyStr ''not-a-list''" scenario_repo start]
    by (simp add: stub_env_def scenario_runner_def scenario_repo_def start_def)
qed




text \<open>
  C9. When the root probe exits with code 0 and its output strips to the empty string,
  the construction of a \<^verbatim>\<open>Repo\<close> raises \<^verbatim>\<open>MissingGitMetaCloneException\<close>: the test
  \<^verbatim>\<open>not working_dir\<close> holds for the empty string as for \<^verbatim>\<open>None\<close>. So every
  constructed \<^verbatim>\<open>Repo\<close> has a working directory that is not empty.
\<close>

theorem empty_root_output_is_missing_clone:
  "(os_path_exists env (os_state m) clone_dir
      \<and> fst (subprocess_Popen env (os_state m) [get_git_meta_bin_function, PyStr ''root'']
               (Some clone_dir)) = Exited 0 out err
      \<and> strip out = []
    \<longrightarrow> fst (Repo_init env clone_dir m) = Inl (MissingGitMetaCloneException clone_dir))
   \<and> (fst (Repo_init env clone_dir m) = Inr r \<longrightarrow> working_dir r \<noteq> [])"
proof -
  have "fst (Repo_init env clone_dir m) = Inl (MissingGitMetaCloneException clone_dir)"
    if e: "os_path_exists env (os_state m) clone_dir"
      and p: "fst (subprocess_Popen env (os_state m) [get_git_meta_bin_function, PyStr ''root'']
                    (Some clone_dir)) = Exited 0 out err"
      and s: "strip out = []"
  proof -
    have "fst (Repo_root env (Some clone_dir) m) = Inr []"
      using execute_outcome [OF p] s by (simp add: Repo_root_def)
    then obtain m' where "Repo_root env (Some clone_dir) m = (Inr [], m')"
      by (cases "Repo_root env (Some clone_dir) m") simp
    with e show ?thesis
      by (simp add: Repo_get_working_dir_def Repo_init_def)
  qed
  then show ?thesis
    using init_working_dir_nonempty [of env clone_dir m r] by blast
qed

theorem empty_root_output_is_missing_clone_witness:
  "os_path_exists (stub_env scenario_fs (\<lambda>cmd cwd. Exited 0 '' \<newline>'' [])) (os_state start)
      ''/tmp/x''
   \<and> fst (subprocess_Popen (stub_env scenario_fs (\<lambda>cmd cwd. Exited 0 '' \<newline>'' []))
          (os_state start) [get_git_meta_bin_function, PyStr ''root''] (Some ''/tmp/x''))
       = Exited 0 '' \<newline>'' []
   \<and> strip '' \<newline>'' = []
   \<and> fst (Repo_init (stub_env scenario_fs (\<lambda>cmd cwd. Exited 0 '' \<newline>'' [])) ''/tmp/x''
          start) = Inl (MissingGitMetaCloneException ''/tmp/x'')
   \<and> fst (Repo_init (stub_env scenario_fs scenario_runner) ''/tmp/x'' start) = Inr scenario_repo
   \<and> working_dir scenario_repo \<noteq> []"
proof -
  let ?env = "stub_env scenario_fs (\<lambda>cmd cwd. Exited 0 '' \<newline>'' [])"
  have e: "os_path_exists ?env (os_state start) ''/tmp/x''"
    by (simp add: stub_env_def scenario_fs_def)
  have p: "fst (subprocess_Popen ?env (os_state start)
                 [get_git_meta_bin_function, PyStr ''root''] (Some ''/tmp/x''))
             = Exited 0 '' \<newline>'' []"
    by (simp add: stub_env_def)
  have s: "strip '' \<newline>'' = []"
    by (simp add: strip_def isspace_def)
  have c: "fst (Repo_init (stub_env scenario_fs scenario_runner) ''/tmp/x'' start)
             = Inr scenario_repo"
    by (simp add: start_def init_scenario)
  show ?thesis
    using e p s c
      empty_root_output_is_missing_clone
        [of ?env start "''/tmp/x''" "'' \<newline>''" "[]" scenario_repo]
      empty_root_output_is_missing_clone
        [of "stub_env scenario_fs scenario_runner" start "''/tmp/x''" "[]" "[]" scenario_repo]
    by simp
qed

text \<open>
  C8. Given an external tool whose \<^verbatim>\<open>root\<close> command, run in the candidate directory,
  always exits with code 0 and prints the same string, whatever the state of the operating
  system: any two constructions of a \<^verbatim>\<open>Repo\<close> from that directory that succeed, from
  whatever states, give the same \<^verbatim>\<open>working_dir\<close> and \<^verbatim>\<open>git_dir\<close>, the working directory
  being the stripped output and \<^verbatim>\<open>git_dir\<close> the working directory joined with
  \<^verbatim>\<open>.git\<close>; and the construction does succeed wherever the directory exists and the
  stripped output is not empty.
\<close>

theorem construction_is_deterministic:
  assumes stub: "\<forall>s. \<exists>err s'. subprocess_Popen env s [get_git_meta_bin_function, PyStr ''root'']
                         (Some clone_dir) = (Exited 0 out err, s')"
  shows "(fst (Repo_init env clone_dir m1) = Inr r1 \<and> fst (Repo_init env clone_dir m2) = Inr r2
          \<longrightarrow> r1 = r2
              \<and> working_dir r1 = strip out
              \<and> git_dir r1 = os_path_join (working_dir r1) [''.git''])
       \<and> (os_path_exists env (os_state m1) clone_dir \<and> strip out \<noteq> []
          \<longrightarrow> (\<exists>r. fst (Repo_init env clone_dir m1) = Inr r))"
proof -
  have run: "\<exists>err. fst (subprocess_Popen env (os_state m)
                 [get_git_meta_bin_function, PyStr ''root''] (Some clone_dir))
               = Exited 0 out err" for m
  proof -
    obtain err s' where
      "subprocess_Popen env (os_state m) [get_git_meta_bin_function, PyStr ''root'']
         (Some clone_dir) = (Exited 0 out err, s')"
      using stub by blast
    then show ?thesis
      by simp
  qed
  have r: "r = \<lparr>working_dir = strip out, git_dir = os_path_join (strip out) [''.git'']\<rparr>"
    if c: "fst (Repo_init env clone_dir m) = Inr r" for m r
  proof -
    obtain err where "fst (subprocess_Popen env (os_state m)
                 [get_git_meta_bin_function, PyStr ''root''] (Some clone_dir))
               = Exited 0 out err"
      using run by blast
    from init_result [OF this init_needs_path [OF c]] c show ?thesis
      by (simp split: if_splits)
  qed
  have t: "\<exists>r. fst (Repo_init env clone_dir m1) = Inr r"
    if e: "os_path_exists env (os_state m1) clone_dir" and s: "strip out \<noteq> []"
  proof -
    obtain err where "fst (subprocess_Popen env (os_state m1)
                 [get_git_meta_bin_function, PyStr ''root''] (Some clone_dir))
               = Exited 0 out err"
      using run by blast
    from init_result [OF this e] s show ?thesis
      by simp
  qed
  show ?thesis
  proof (intro conjI impI)
    assume both: "fst (Repo_init env clone_dir m1) = Inr r1
                  \<and> fst (Repo_init env clone_dir m2) = Inr r2"
    then have "r1 = \<lparr>working_dir = strip out, git_dir = os_path_join (strip out) [''.git'']\<rparr>"
      and "r2 = \<lparr>working_dir = strip out, git_dir = os_path_join (strip out) [''.git'']\<rparr>"
      using r by blast+
    then show "r1 = r2" "working_dir r1 = strip out"
      "git_dir r1 = os_path_join (working_dir r1) [''.git'']"
      by simp_all
  next
    assume "os_path_exists env (os_state m1) clone_dir \<and> strip out \<noteq> []"
    then show "\<exists>r. fst (Repo_init env clone_dir m1) = Inr r"
      using t by blast
  qed
qed

theorem construction_is_deterministic_witness:
  "(\<forall>s. \<exists>err s'. subprocess_Popen (stub_env scenario_fs scenario_runner) s
             [get_git_meta_bin_function, PyStr ''root''] (Some ''/tmp/x'')
           = (Exited 0 ''  /some/path\<newline>'' err, s'))
   \<and> Repo_init (stub_env scenario_fs scenario_runner) ''/tmp/x'' start
       = (Inr scenario_repo,
          \<lparr>os_state = 1,
             popen_calls = [([get_git_meta_bin_function, PyStr ''root''], Some ''/tmp/x'')]\<rparr>)
   \<and> fst (Repo_init (stub_env scenario_fs scenario_runner) ''/tmp/x''
          \<lparr>os_state = 1,
             popen_calls = [([get_git_meta_bin_function, PyStr ''root''], Some ''/tmp/x'')]\<rparr>)
       = Inr scenario_repo
   \<and> working_dir scenario_repo = ''/some/path''
   \<and> git_dir scenario_repo = ''/some/path/.git''
   \<and> os_path_join ''/some/path'' [''.git''] = ''/some/path/.git''"
proof -
  let ?env = "stub_env scenario_fs scenario_runner"
  let ?m = "\<lparr>os_state = 1,
             popen_calls = [([get_git_meta_bin_function, PyStr ''root''], Some ''/tmp/x'')]\<rparr>"
  have stub: "\<forall>s. \<exists>err s'. subprocess_Popen ?env s
                 [get_git_meta_bin_function, PyStr ''root''] (Some ''/tmp/x'')
               = (Exited 0 ''  /some/path\<newline>'' err, s')"
    by (simp add: stub_env_def scenario_runner_def)
  have c1: "fst (Repo_init ?env ''/tmp/x'' start) = Inr scenario_repo"
    by (simp add: start_def init_scenario)
  have c2: "fst (Repo_init ?env ''/tmp/x'' ?m) = Inr scenario_repo"
    by (simp add: init_scenario)
  have m: "snd (Repo_init ?env ''/tmp/x'' start) = ?m"
    by (simp add: start_def init_scenario)
  show ?thesis
    using stub c1 c2 m
      construction_is_deterministic [OF stub, of start scenario_repo ?m scenario_repo]
    by (simp add: prod_eq_iff strip_scenario scenario_repo_def os_path_join_def join_step_def)
qed

text \<open>
  C10. \<^verbatim>\<open>NoSuchPathException\<close> has the bases \<^verbatim>\<open>GitMetaException\<close> and \<^verbatim>\<open>OSError\<close> and
  is a subclass of both, so the exception that the construction of a \<^verbatim>\<open>Repo\<close> raises for
  a directory that does not exist is caught by \<^verbatim>\<open>except GitMetaException\<close> and by
  \<^verbatim>\<open>except OSError\<close>. The other two exceptions of the package have
  \<^verbatim>\<open>GitMetaException\<close> as their only base, and neither they nor
  \<^verbatim>\<open>GitMetaException\<close> are subclasses of \<^verbatim>\<open>OSError\<close>.
\<close>

theorem no_such_path_is_os_error:
  "bases Cls_NoSuchPathException = [Cls_GitMetaException, Cls_OSError]
   \<and> issubclass Cls_NoSuchPathException Cls_GitMetaException
   \<and> issubclass Cls_NoSuchPathException Cls_OSError
   \<and> (\<not> os_path_exists env (os_state m) clone_dir
      \<longrightarrow> (\<exists>e. fst (Repo_init env clone_dir m) = Inl e
               \<and> exn_class e = Cls_NoSuchPathException
               \<and> except_catches Cls_GitMetaException e
               \<and> except_catches Cls_OSError e))
   \<and> bases Cls_MissingGitMetaCloneException = [Cls_GitMetaException]
   \<and> bases Cls_GitMetaCommandException = [Cls_GitMetaException]
   \<and> \<not> issubclass Cls_MissingGitMetaCloneException Cls_OSError
   \<and> \<not> issubclass Cls_GitMetaCommandException Cls_OSError
   \<and> \<not> issubclass Cls_GitMetaException Cls_OSError"
proof -
  have a: "issubclass Cls_NoSuchPathException Cls_GitMetaException"
    by code_simp
  have b: "issubclass Cls_NoSuchPathException Cls_OSError"
    by code_simp
  have c: "\<not> issubclass Cls_MissingGitMetaCloneException Cls_OSError"
    by code_simp
  have d: "\<not> issubclass Cls_GitMetaCommandException Cls_OSError"
    by code_simp
  have e: "\<not> issubclass Cls_GitMetaException Cls_OSError"
    by code_simp
  show ?thesis
    using a b c d e
    by (simp add: Repo_init_def Repo_get_working_dir_def except_catches_def)
qed

theorem no_such_path_is_os_error_witness:
  "\<not> os_path_exists (stub_env scenario_fs scenario_runner) (os_state start) ''/nowhere''
   \<and> fst (Repo_init (stub_env scenario_fs scenario_runner) ''/nowhere'' start)
       = Inl (NoSuchPathException ''Could not read /nowhere'')
   \<and> except_catches Cls_GitMetaException (NoSuchPathException ''Could not read /nowhere'')
   \<and> except_catches Cls_OSError (NoSuchPathException ''Could not read /nowhere'')"
proof -
  let ?env = "stub_env scenario_fs scenario_runner"
  have h: "\<not> os_path_exists ?env (os_state start) ''/nowhere''"
    by (simp add: stub_env_def scenario_fs_def)
  have r: "fst (Repo_init ?env ''/nowhere'' start)
             = Inl (NoSuchPathException ''Could not read /nowhere'')"
    using h by (simp add: Repo_init_def Repo_get_working_dir_def)
  show ?thesis
    using h r no_such_path_is_os_error [of ?env start "''/nowhere''"] by auto
qed

end
